theory Spec2Isabelle
  imports Main
begin

section \<open>Daily.dev Streak Keeper: the background script\<close>

text \<open>
  A shallow embedding of \<^verbatim>\<open>src/js/background.js\<close>. Every callback of the script
  becomes a function from the persisted store to the new store and the list of browser
  calls it issued. The value of \<^verbatim>\<open>chrome.runtime.lastError\<close> seen by a callback is an
  explicit boolean argument, the clock reading of a callback is the argument \<open>now\<close>
  (milliseconds since the epoch), and the time zone of the browser is the argument \<open>z\<close>.
  The \<^verbatim>\<open>try\<close>/\<^verbatim>\<open>catch\<close> blocks only log; the timers that give up after 15 or 30
  seconds (they remove the listener and close the tab) touch no stored key. Neither is
  part of the model.
\<close>

subsection \<open>JavaScript numbers\<close>

text \<open>
  The values that flow into the streak counter are what the injected extraction functions
  return (\<^verbatim>\<open>null\<close> or the result of \<^verbatim>\<open>parseInt\<close> on a run of digits), plus
  \<^verbatim>\<open>undefined\<close> for a missing property. A finite number is an integer; \<^verbatim>\<open>NaN\<close> and
  the two infinities stand beside the finite ones.
\<close>

datatype jsnum = Fin int | NaN | PosInf | NegInf

datatype jsval = JUndefined | JNull | JNum jsnum

text \<open>
  A number is an IEEE double: an integer result is rounded to 53 significant bits, ties
  to the even significand, and a magnitude that rounds to \<open>2^1024\<close> or more is an
  infinity.
\<close>

fun bitLength :: "nat \<Rightarrow> nat" where
  "bitLength n = (if n = 0 then 0 else Suc (bitLength (n div 2)))"

declare bitLength.simps [simp del]

definition roundMagnitude :: "nat \<Rightarrow> nat" where
  "roundMagnitude m =
     (if m < 2 ^ 53 then m
      else
        let e = bitLength m - 53;
            q = m div 2 ^ e;
            r = m mod 2 ^ e;
            half = 2 ^ (e - 1);
            q' = (if half < r \<or> (r = half \<and> odd q) then q + 1 else q)
        in q' * 2 ^ e)"

definition toDouble :: "int \<Rightarrow> jsnum" where
  "toDouble x =
     (if 2 ^ 1024 \<le> \<bar>x\<bar> then (if x < 0 then NegInf else PosInf)
      else
        let m = roundMagnitude (nat \<bar>x\<bar>)
        in if 2 ^ 1024 \<le> m then (if x < 0 then NegInf else PosInf)
           else Fin (if x < 0 then - int m else int m))"

text \<open>\<^verbatim>\<open>ToNumber\<close>: \<^verbatim>\<open>undefined\<close> becomes \<^verbatim>\<open>NaN\<close>, \<^verbatim>\<open>null\<close> becomes \<open>0\<close>.\<close>

fun toNumber :: "jsval \<Rightarrow> jsnum" where
  "toNumber JUndefined = NaN"
| "toNumber JNull = Fin 0"
| "toNumber (JNum n) = n"

text \<open>The global \<^verbatim>\<open>isNaN(x)\<close> coerces its argument with \<^verbatim>\<open>ToNumber\<close> first.\<close>

definition isNaN :: "jsval \<Rightarrow> bool" where
  "isNaN v = (toNumber v = NaN)"

text \<open>\<^verbatim>\<open>ToBoolean\<close>: \<^verbatim>\<open>undefined\<close>, \<^verbatim>\<open>null\<close>, \<open>0\<close> and \<^verbatim>\<open>NaN\<close> are falsy.\<close>

fun truthy :: "jsval \<Rightarrow> bool" where
  "truthy JUndefined = False"
| "truthy JNull = False"
| "truthy (JNum (Fin n)) = (n \<noteq> 0)"
| "truthy (JNum NaN) = False"
| "truthy (JNum PosInf) = True"
| "truthy (JNum NegInf) = True"

text \<open>
  Numeric addition: the exact sum of two finite numbers, rounded to a double;
  \<^verbatim>\<open>Infinity + -Infinity\<close> is \<^verbatim>\<open>NaN\<close>.
\<close>

fun num_add :: "jsnum \<Rightarrow> jsnum \<Rightarrow> jsnum" where
  "num_add NaN _ = NaN"
| "num_add _ NaN = NaN"
| "num_add (Fin a) (Fin b) = toDouble (a + b)"
| "num_add (Fin a) PosInf = PosInf"
| "num_add (Fin a) NegInf = NegInf"
| "num_add PosInf (Fin b) = PosInf"
| "num_add NegInf (Fin b) = NegInf"
| "num_add PosInf PosInf = PosInf"
| "num_add NegInf NegInf = NegInf"
| "num_add PosInf NegInf = NaN"
| "num_add NegInf PosInf = NaN"

text \<open>The operator \<^verbatim>\<open>+\<close> on two non-string operands adds their \<^verbatim>\<open>ToNumber\<close> values.\<close>

definition js_add :: "jsval \<Rightarrow> jsval \<Rightarrow> jsval" where
  "js_add a b = JNum (num_add (toNumber a) (toNumber b))"





text \<open>\<^verbatim>\<open>String.prototype.includes\<close>: the needle occurs at some offset.\<close>

fun str_includes :: "string \<Rightarrow> string \<Rightarrow> bool" where
  "str_includes [] t = (t = [])"
| "str_includes (c # cs) t = (take (length t) (c # cs) = t \<or> str_includes cs t)"

subsection \<open>Time\<close>

text \<open>
  An instant is a time value of \<^verbatim>\<open>Date\<close>: milliseconds since the epoch, in UTC. The
  time zone gives the offset of local time from UTC, as \<^verbatim>\<open>LocalTZA\<close> of the language
  definition does: at a UTC instant, and at a local wall-clock time (where a wall-clock
  time that occurs twice or not at all is read with the offset before the transition).
\<close>

type_synonym instant = int
type_synonym dateString = int

record zone =
  offsetAtUTC :: "int \<Rightarrow> int"
  offsetAtLocal :: "int \<Rightarrow> int"

definition MS_PER_DAY :: int where
  "MS_PER_DAY = 24 * 60 * 60 * 1000"

definition localTime :: "zone \<Rightarrow> instant \<Rightarrow> int" where
  "localTime z t = t + offsetAtUTC z t"

definition utcTime :: "zone \<Rightarrow> int \<Rightarrow> instant" where
  "utcTime z w = w - offsetAtLocal z w"

text \<open>
  \<^verbatim>\<open>toDateString()\<close> names the local calendar day; distinct days have distinct names,
  so the name is modelled by the index of the local day.
\<close>

definition toDateString :: "zone \<Rightarrow> instant \<Rightarrow> dateString" where
  "toDateString z t = localTime z t div MS_PER_DAY"

text \<open>
  \<^verbatim>\<open>d.setDate(d.getDate() + k)\<close>: the same wall-clock time \<open>k\<close> calendar days
  later, read back as a UTC instant.
\<close>

definition addDays :: "zone \<Rightarrow> instant \<Rightarrow> int \<Rightarrow> instant" where
  "addDays z t k = utcTime z (localTime z t + k * MS_PER_DAY)"

text \<open>
  \<^verbatim>\<open>d.setHours(hour, minute, 0, 0)\<close>: the given wall-clock time on the local calendar
  day of \<open>d\<close> (hours and minutes out of range carry over, as the arithmetic does).
\<close>

definition wallClock :: "zone \<Rightarrow> instant \<Rightarrow> int \<Rightarrow> int \<Rightarrow> int" where
  "wallClock z t hour minute =
     toDateString z t * MS_PER_DAY + hour * (60 * 60 * 1000) + minute * (60 * 1000)"

definition setHours :: "zone \<Rightarrow> instant \<Rightarrow> int \<Rightarrow> int \<Rightarrow> instant" where
  "setHours z t hour minute = utcTime z (wallClock z t hour minute)"

text \<open>A zone with one offset throughout, and UTC itself.\<close>

definition fixedZone :: "int \<Rightarrow> zone" where
  "fixedZone k = \<lparr>offsetAtUTC = (\<lambda>t. k), offsetAtLocal = (\<lambda>w. k)\<rparr>"

definition utcZone :: zone where
  "utcZone = fixedZone 0"

text \<open>
  A zone whose offset changes from \<open>a\<close> to \<open>b\<close> at the UTC instant \<open>x\<close>. New York
  leaves daylight-saving time (UTC-4) for standard time (UTC-5) on 2026-11-01 at 06:00 UTC.
\<close>

definition transitionZone :: "instant \<Rightarrow> int \<Rightarrow> int \<Rightarrow> zone" where
  "transitionZone x a b =
     \<lparr>offsetAtUTC = (\<lambda>t. if t < x then a else b),
      offsetAtLocal = (\<lambda>w. if w < x + max a b then a else b)\<rparr>"

definition newYork2026 :: zone where
  "newYork2026 = transitionZone 1793512800000 (- 14400000) (- 18000000)"

text \<open>
  The offset is steady around an alarm time when it is the same at \<open>now\<close>, at today's
  (hour, minute) and at tomorrow's (hour, minute): no change of offset lies in between.
\<close>

definition steadyOffset :: "zone \<Rightarrow> instant \<Rightarrow> int \<Rightarrow> int \<Rightarrow> bool" where
  "steadyOffset z now hour minute =
     (let k = offsetAtUTC z now;
          w = wallClock z now hour minute
      in offsetAtLocal z w = k \<and> offsetAtUTC z (w - k) = k \<and>
         offsetAtLocal z (w + MS_PER_DAY) = k)"

subsection \<open>Constants\<close>

definition FIRST_REMINDER_HOUR :: int where "FIRST_REMINDER_HOUR = 19"
definition FIRST_REMINDER_MINUTE :: int where "FIRST_REMINDER_MINUTE = 0"
definition SECOND_REMINDER_HOUR :: int where "SECOND_REMINDER_HOUR = 22"
definition SECOND_REMINDER_MINUTE :: int where "SECOND_REMINDER_MINUTE = 0"
definition FIRST_FAILSAFE_HOUR :: int where "FIRST_FAILSAFE_HOUR = 20"
definition FIRST_FAILSAFE_MINUTE :: int where "FIRST_FAILSAFE_MINUTE = 0"
definition SECOND_FAILSAFE_HOUR :: int where "SECOND_FAILSAFE_HOUR = 22"
definition SECOND_FAILSAFE_MINUTE :: int where "SECOND_FAILSAFE_MINUTE = 15"
definition FORCE_SYNC_HOUR :: int where "FORCE_SYNC_HOUR = 18"
definition FORCE_SYNC_MINUTE :: int where "FORCE_SYNC_MINUTE = 0"

subsection \<open>The persisted store\<close>

text \<open>
  The five keys of \<^verbatim>\<open>chrome.storage.local\<close>. \<open>lastVisit\<close> is \<^verbatim>\<open>null\<close> (\<open>None\<close>) or a
  date string. \<^verbatim>\<open>chrome.storage.local.set\<close> merges the given keys into the store and
  leaves the others; when it fails the store is as before. A value is stored as it is
  given (what the browser's serialisation makes of \<^verbatim>\<open>NaN\<close> or an infinity is not
  modelled). The \<^verbatim>\<open>result\<close> that \<^verbatim>\<open>chrome.storage.local.get\<close> hands to its callback
  is a store as well: the values of the keys at the time of the read.
\<close>

record store =
  streak :: jsval
  lastVisit :: "dateString option"
  streakMaintainedToday :: bool
  syncedWithDailyDev :: bool
  lastSyncTime :: "instant option"

subsection \<open>Browser calls issued by the script\<close>

text \<open>
  The calls other than those to the storage, in the order of issue. A call that fails
  has still been issued: \<^verbatim>\<open>chrome.tabs.create\<close> is listed whether or not its callback
  sees an error.
\<close>

datatype notice =
    StreakMaintainedSynced jsval
  | StreakContinued jsval
  | StreakMaintained
  | StreakSynced jsval
  | StreakReminder bool

datatype script = ClickFirstArticle | ExtractStreakCountFromPage

datatype listener = ArticleLoadListener | TabLoadListener

datatype response = Success jsval | Failure string

datatype effect =
    NotificationsCreate notice
  | TabsCreate bool
  | TabsRemove
  | ExecuteScript script
  | AddListener listener
  | AlarmsCreate string instant
  | SendResponse response

subsection \<open>Results of an injected script\<close>

text \<open>
  \<^verbatim>\<open>chrome.scripting.executeScript\<close> hands its callback \<^verbatim>\<open>results\<close>: \<^verbatim>\<open>undefined\<close>
  (\<open>None\<close>) or an array with one entry per frame, each holding the function's return
  value under \<^verbatim>\<open>result\<close>.
\<close>

datatype 'r frame = Frame (result: 'r)

type_synonym 'r results = "'r frame list option"

text \<open>\<^verbatim>\<open>results && results[0]\<close>, then the entry's \<^verbatim>\<open>result\<close>.\<close>

fun firstResult :: "'r results \<Rightarrow> 'r option" where
  "firstResult None = None"
| "firstResult (Some []) = None"
| "firstResult (Some (f # fs)) = Some (result f)"

text \<open>
  The guard
  \<^verbatim>\<open>results && results[0] && results[0].result && !isNaN(results[0].result)\<close>
  of the three callbacks that receive the value of \<^verbatim>\<open>extractStreakCountFromPage\<close>.
\<close>

definition extractedCount :: "jsval results \<Rightarrow> jsval option" where
  "extractedCount results =
     (case firstResult results of
        None \<Rightarrow> None
      | Some v \<Rightarrow> if truthy v \<and> \<not> isNaN v then Some v else None)"

text \<open>The status object returned by \<^verbatim>\<open>clickFirstArticle\<close>.\<close>

record clickStatus =
  articlesFound :: bool
  linkFound :: bool
  clicked :: bool
  articleUrl :: "string option"
  error :: "string option"
  streakCount :: jsval

subsection \<open>Schedule policy\<close>

text \<open>
  \<^verbatim>\<open>getNextReminderTime(hour, minute)\<close>; both \<^verbatim>\<open>new Date()\<close> of the body read the
  clock in the same tick, \<open>now\<close>. The value returned is \<^verbatim>\<open>reminder.getTime()\<close>.
\<close>

definition getNextReminderTime :: "zone \<Rightarrow> int \<Rightarrow> int \<Rightarrow> instant \<Rightarrow> instant" where
  "getNextReminderTime z hour minute now =
     (let reminder = setHours z now hour minute
      in if now > reminder then addDays z reminder 1 else reminder)"

definition setupAlarms :: "zone \<Rightarrow> instant \<Rightarrow> effect list" where
  "setupAlarms z now =
     [AlarmsCreate ''forceStreakSync''
        (getNextReminderTime z FORCE_SYNC_HOUR FORCE_SYNC_MINUTE now),
      AlarmsCreate ''firstStreakReminder''
        (getNextReminderTime z FIRST_REMINDER_HOUR FIRST_REMINDER_MINUTE now),
      AlarmsCreate ''secondStreakReminder''
        (getNextReminderTime z SECOND_REMINDER_HOUR SECOND_REMINDER_MINUTE now),
      AlarmsCreate ''firstStreakFailsafe''
        (getNextReminderTime z FIRST_FAILSAFE_HOUR FIRST_FAILSAFE_MINUTE now),
      AlarmsCreate ''secondStreakFailsafe''
        (getNextReminderTime z SECOND_FAILSAFE_HOUR SECOND_FAILSAFE_MINUTE now)]"

subsection \<open>Initialisation\<close>

text \<open>The state written by the \<^verbatim>\<open>chrome.runtime.onInstalled\<close> listener.\<close>

definition installedStore :: store where
  "installedStore =
     \<lparr>streak = JNum (Fin 0), lastVisit = None, streakMaintainedToday = False,
      syncedWithDailyDev = False, lastSyncTime = None\<rparr>"

text \<open>
  The listener does not look at the reason of the event (installation, update of the
  extension or of the browser). It writes all five keys and then calls
  \<^verbatim>\<open>setupAlarms()\<close>, outside the callback of the write, so the alarms are created
  whether or not the write succeeded.
\<close>

definition onInstalled :: "zone \<Rightarrow> instant \<Rightarrow> bool \<Rightarrow> store \<Rightarrow> store \<times> effect list" where
  "onInstalled z now setErr st = (if setErr then st else installedStore, setupAlarms z now)"

subsection \<open>Streak reconciliation\<close>

text \<open>The test \<^verbatim>\<open>!result.lastVisit || result.lastVisit !== today\<close>.\<close>

definition notVisited :: "store \<Rightarrow> dateString \<Rightarrow> bool" where
  "notVisited st today = (lastVisit st = None \<or> lastVisit st \<noteq> Some today)"

text \<open>
  A reconciliation path reads the store, and the callback of the read computes a write.
  The callback works on the \<^verbatim>\<open>result\<close> of the read, \<open>res\<close>; the write lands on the
  store as it is by then, \<open>st\<close>, which another callback may have changed since the
  read. \<open>getErr\<close> and \<open>setErr\<close> are \<^verbatim>\<open>chrome.runtime.lastError\<close> in the callbacks of
  the read and of the write.

  The callback of the read in \<^verbatim>\<open>updateStreakWithCount(streakCount)\<close>:
\<close>

definition updateStreakWithCountCallback ::
  "jsval \<Rightarrow> zone \<Rightarrow> instant \<Rightarrow> bool \<Rightarrow> bool \<Rightarrow> store \<Rightarrow> store \<Rightarrow> store \<times> effect list" where
  "updateStreakWithCountCallback count z now getErr setErr res st =
     (if getErr then (st, [])
      else
        let today = toDateString z now;
            isFirstVisitToday = notVisited res today
        in if setErr then (st, [])
           else
             (st\<lparr>streak := count, lastVisit := Some today, streakMaintainedToday := True,
                 syncedWithDailyDev := True, lastSyncTime := Some now\<rparr>,
              if isFirstVisitToday then [NotificationsCreate (StreakMaintainedSynced count)]
              else []))"

text \<open>
  The internal tracking. \<^verbatim>\<open>yesterdayString\<close> is the date string of the clock reading
  moved back by \<^verbatim>\<open>setDate(getDate() - 1)\<close>; \<^verbatim>\<open>newStreak\<close> is computed from the
  \<^verbatim>\<open>result\<close> of the read.
\<close>

definition yesterdayString :: "zone \<Rightarrow> instant \<Rightarrow> dateString" where
  "yesterdayString z now = toDateString z (addDays z now (- 1))"

definition newStreak :: "zone \<Rightarrow> instant \<Rightarrow> store \<Rightarrow> jsval" where
  "newStreak z now res =
     (if lastVisit res = Some (yesterdayString z now) then js_add (streak res) (JNum (Fin 1))
      else JNum (Fin 1))"

text \<open>The callback of the read in \<^verbatim>\<open>updateStreak()\<close>:\<close>

definition updateStreakCallback ::
  "zone \<Rightarrow> instant \<Rightarrow> bool \<Rightarrow> bool \<Rightarrow> store \<Rightarrow> store \<Rightarrow> store \<times> effect list" where
  "updateStreakCallback z now getErr setErr res st =
     (if getErr then (st, [])
      else
        let today = toDateString z now
        in if notVisited res today then
             let continued = (lastVisit res = Some (yesterdayString z now))
             in if setErr then (st, [])
                else
                  (st\<lparr>streak := newStreak z now res, lastVisit := Some today,
                      streakMaintainedToday := True, syncedWithDailyDev := False\<rparr>,
                   [NotificationsCreate
                      (if continued then StreakContinued (newStreak z now res)
                       else StreakMaintained)])
           else (st, []))"

text \<open>
  The two functions when no other write comes between the read and the write: the
  callback is handed the store itself.
\<close>

definition updateStreakWithCount ::
  "jsval \<Rightarrow> zone \<Rightarrow> instant \<Rightarrow> bool \<Rightarrow> bool \<Rightarrow> store \<Rightarrow> store \<times> effect list" where
  "updateStreakWithCount count z now getErr setErr st =
     updateStreakWithCountCallback count z now getErr setErr st st"

definition updateStreak ::
  "zone \<Rightarrow> instant \<Rightarrow> bool \<Rightarrow> bool \<Rightarrow> store \<Rightarrow> store \<times> effect list" where
  "updateStreak z now getErr setErr st = updateStreakCallback z now getErr setErr st st"

subsection \<open>Page load and the click on an article\<close>

definition handleDailyDevPageLoad ::
  "zone \<Rightarrow> instant \<Rightarrow> bool \<Rightarrow> store \<Rightarrow> store \<times> effect list" where
  "handleDailyDevPageLoad z now getErr st =
     (if getErr then (st, [])
      else if notVisited st (toDateString z now) then (st, [ExecuteScript ClickFirstArticle])
      else (st, []))"

text \<open>The listener of \<^verbatim>\<open>chrome.tabs.onUpdated\<close> at the top of the script.\<close>

definition onTabUpdated ::
  "bool \<Rightarrow> string option \<Rightarrow> zone \<Rightarrow> instant \<Rightarrow> bool \<Rightarrow> store \<Rightarrow> store \<times> effect list" where
  "onTabUpdated complete url z now getErr st =
     (if complete \<and> (case url of None \<Rightarrow> False
                                | Some u \<Rightarrow> u \<noteq> [] \<and> str_includes u ''daily.dev'')
      then handleDailyDevPageLoad z now getErr st
      else (st, []))"

text \<open>
  The test
  \<^verbatim>\<open>status.clicked || (status.articleUrl && status.articleUrl.includes("/posts/"))\<close>.
\<close>

definition articleReached :: "clickStatus \<Rightarrow> bool" where
  "articleReached status =
     (clicked status \<or>
      (case articleUrl status of
         None \<Rightarrow> False
       | Some u \<Rightarrow> u \<noteq> [] \<and> str_includes u ''/posts/''))"

text \<open>
  The callback that \<^verbatim>\<open>clickArticleAndUpdateStreak\<close> passes to \<^verbatim>\<open>executeScript\<close>,
  together with the read and the write of the reconciliation path it calls. A
  \<^verbatim>\<open>result\<close> of the script that is \<^verbatim>\<open>null\<close> or \<^verbatim>\<open>undefined\<close> is \<open>None\<close>.
\<close>

definition clickArticleCallback ::
  "bool \<Rightarrow> (clickStatus option) results \<Rightarrow> zone \<Rightarrow> instant \<Rightarrow> bool \<Rightarrow> bool \<Rightarrow> store \<Rightarrow> store
     \<Rightarrow> store \<times> effect list" where
  "clickArticleCallback scriptErr results z now getErr setErr res st =
     (if scriptErr then (st, [])
      else
        case firstResult results of
          None \<Rightarrow> (st, [])
        | Some None \<Rightarrow> (st, [])
        | Some (Some status) \<Rightarrow>
            if articleReached status
            then
              if streakCount status \<noteq> JNull \<and> \<not> isNaN (streakCount status)
              then updateStreakWithCountCallback (streakCount status) z now getErr setErr res st
              else updateStreakCallback z now getErr setErr res st
            else if articlesFound status \<and> linkFound status
            then (st, [AddListener ArticleLoadListener])
            else (st, []))"

text \<open>
  The callback inside \<^verbatim>\<open>articleLoadListener\<close>, which receives the value of
  \<^verbatim>\<open>extractStreakCountFromPage\<close> once the article page has loaded.
\<close>

definition articleLoadCallback ::
  "bool \<Rightarrow> jsval results \<Rightarrow> zone \<Rightarrow> instant \<Rightarrow> bool \<Rightarrow> bool \<Rightarrow> store \<Rightarrow> store
     \<Rightarrow> store \<times> effect list" where
  "articleLoadCallback scriptErr results z now getErr setErr res st =
     (if scriptErr then updateStreakCallback z now getErr setErr res st
      else
        case extractedCount results of
          Some v \<Rightarrow> updateStreakWithCountCallback v z now getErr setErr res st
        | None \<Rightarrow> updateStreakCallback z now getErr setErr res st)"

subsection \<open>Forced synchronisation\<close>

text \<open>
  \<^verbatim>\<open>forceSyncStreakFromDailyDev()\<close> runs in two parts. The first reads \<open>lastVisit\<close>,
  fixes \<^verbatim>\<open>today\<close> and \<^verbatim>\<open>alreadyMaintained\<close>, and opens a background tab; these two
  constants stay in the closure until the extraction script has returned.
\<close>

record pendingSync =
  syncToday :: dateString
  alreadyMaintained :: bool

definition forceSyncClosure :: "zone \<Rightarrow> instant \<Rightarrow> store \<Rightarrow> pendingSync" where
  "forceSyncClosure z now st =
     \<lparr>syncToday = toDateString z now,
      alreadyMaintained = (lastVisit st = Some (toDateString z now))\<rparr>"

definition forceSyncStreakFromDailyDev ::
  "zone \<Rightarrow> instant \<Rightarrow> bool \<Rightarrow> bool \<Rightarrow> store \<Rightarrow> store \<times> effect list" where
  "forceSyncStreakFromDailyDev z now getErr tabErr st =
     (if getErr then (st, [])
      else if tabErr then (st, [TabsCreate False])
      else (st, [TabsCreate False, AddListener TabLoadListener]))"

text \<open>
  The second part is the callback of \<^verbatim>\<open>executeScript\<close>. The tab is closed first. The
  write of \<open>lastVisit\<close> under \<^verbatim>\<open>alreadyMaintained\<close> has no callback, so its failure
  (\<open>setErr2\<close>) is not looked at and the notification follows in either case.
\<close>

definition forceSyncCallback ::
  "pendingSync \<Rightarrow> bool \<Rightarrow> jsval results \<Rightarrow> instant \<Rightarrow> bool \<Rightarrow> bool \<Rightarrow> store
     \<Rightarrow> store \<times> effect list" where
  "forceSyncCallback p scriptErr results now setErr setErr2 st =
     (if scriptErr then (st, [TabsRemove])
      else
        case extractedCount results of
          Some count \<Rightarrow>
            if setErr then (st, [TabsRemove])
            else
              let st1 = st\<lparr>streak := count, syncedWithDailyDev := True,
                           lastSyncTime := Some now\<rparr>;
                  st2 = (if alreadyMaintained p \<and> \<not> setErr2
                         then st1\<lparr>lastVisit := Some (syncToday p),
                                 streakMaintainedToday := True\<rparr>
                         else st1)
              in (st2, [TabsRemove, NotificationsCreate (StreakSynced count)])
        | None \<Rightarrow> (st, [TabsRemove]))"

text \<open>
  The \<^verbatim>\<open>chrome.runtime.onMessage\<close> listener, for the popup's \<^verbatim>\<open>forceSyncStreak\<close>
  request: again the opening of the tab, then the callback of the extraction.
\<close>

definition onMessage :: "string \<Rightarrow> bool \<Rightarrow> store \<Rightarrow> store \<times> effect list" where
  "onMessage action tabErr st =
     (if action = ''forceSyncStreak'' then
        if tabErr then (st, [TabsCreate False, SendResponse (Failure ''Could not create tab'')])
        else (st, [TabsCreate False, AddListener TabLoadListener])
      else (st, []))"

definition manualSyncCallback ::
  "bool \<Rightarrow> jsval results \<Rightarrow> instant \<Rightarrow> bool \<Rightarrow> store \<Rightarrow> store \<times> effect list" where
  "manualSyncCallback scriptErr results now setErr st =
     (if scriptErr then (st, [TabsRemove, SendResponse (Failure ''Script execution failed'')])
      else
        case extractedCount results of
          Some count \<Rightarrow>
            if setErr then (st, [TabsRemove, SendResponse (Failure ''Storage update failed'')])
            else
              (st\<lparr>streak := count, syncedWithDailyDev := True, lastSyncTime := Some now\<rparr>,
               [TabsRemove, SendResponse (Success count)])
        | None \<Rightarrow>
            (st, [TabsRemove, SendResponse (Failure ''Could not extract streak count'')]))"

subsection \<open>Alarms\<close>

definition checkStreakAndNotify ::
  "bool \<Rightarrow> zone \<Rightarrow> instant \<Rightarrow> bool \<Rightarrow> store \<Rightarrow> store \<times> effect list" where
  "checkStreakAndNotify isUrgent z now getErr st =
     (if getErr then (st, [])
      else if notVisited st (toDateString z now)
      then (st, [NotificationsCreate (StreakReminder isUrgent)])
      else (st, []))"

definition executeStreakFailsafe ::
  "zone \<Rightarrow> instant \<Rightarrow> bool \<Rightarrow> bool \<Rightarrow> store \<Rightarrow> store \<times> effect list" where
  "executeStreakFailsafe z now getErr tabErr st =
     (if getErr then (st, [])
      else if notVisited st (toDateString z now) then
        if tabErr then (st, [TabsCreate True])
        else (st, [TabsCreate True, AddListener TabLoadListener])
      else (st, []))"

text \<open>
  The \<^verbatim>\<open>chrome.alarms.onAlarm\<close> listener. \<open>getErr\<close> is the error of the listener's
  own read (for \<^verbatim>\<open>forceStreakSync\<close>: of the read in the forced synchronisation),
  \<open>getErr2\<close> the error of the read inside the function it calls.
\<close>

definition onAlarm ::
  "string \<Rightarrow> zone \<Rightarrow> instant \<Rightarrow> bool \<Rightarrow> bool \<Rightarrow> bool \<Rightarrow> store \<Rightarrow> store \<times> effect list" where
  "onAlarm name z now getErr getErr2 tabErr st =
     (if name = ''forceStreakSync'' then forceSyncStreakFromDailyDev z now getErr tabErr st
      else if getErr then (st, [])
      else if notVisited st (toDateString z now) then
        if name = ''firstStreakReminder'' \<or> name = ''secondStreakReminder''
        then checkStreakAndNotify (name = ''secondStreakReminder'') z now getErr2 st
        else if name = ''firstStreakFailsafe'' \<or> name = ''secondStreakFailsafe''
        then executeStreakFailsafe z now getErr2 tabErr st
        else (st, [])
      else (st, []))"

subsection \<open>The script as a transition system\<close>

text \<open>
  One event per callback that the browser can deliver, with the values the browser
  passes to it. An event of a reconciliation path carries the \<^verbatim>\<open>result\<close> of its read,
  which need not be the store the write lands on.
\<close>

datatype event =
    Installed
  | TabUpdated bool "string option"
  | ClickResults bool "(clickStatus option) results" store
  | ArticleResults bool "jsval results" store
  | UpdateStreak store
  | UpdateStreakWithCount jsval store
  | AlarmFired string
  | ForceSyncResults pendingSync bool "jsval results"
  | MessageReceived string
  | ManualSyncResults bool "jsval results"

text \<open>The error signals of the storage and tab calls made while an event is handled.\<close>

record lastErrors =
  getError :: bool
  getError2 :: bool
  setError :: bool
  setError2 :: bool
  tabError :: bool

fun step :: "zone \<Rightarrow> event \<Rightarrow> instant \<Rightarrow> lastErrors \<Rightarrow> store \<Rightarrow> store \<times> effect list" where
  "step z Installed now e st = onInstalled z now (setError e) st"
| "step z (TabUpdated complete url) now e st = onTabUpdated complete url z now (getError e) st"
| "step z (ClickResults scriptErr rs res) now e st =
     clickArticleCallback scriptErr rs z now (getError e) (setError e) res st"
| "step z (ArticleResults scriptErr rs res) now e st =
     articleLoadCallback scriptErr rs z now (getError e) (setError e) res st"
| "step z (UpdateStreak res) now e st =
     updateStreakCallback z now (getError e) (setError e) res st"
| "step z (UpdateStreakWithCount v res) now e st =
     updateStreakWithCountCallback v z now (getError e) (setError e) res st"
| "step z (AlarmFired name) now e st =
     onAlarm name z now (getError e) (getError2 e) (tabError e) st"
| "step z (ForceSyncResults p scriptErr rs) now e st =
     forceSyncCallback p scriptErr rs now (setError e) (setError2 e) st"
| "step z (MessageReceived action) now e st = onMessage action (tabError e) st"
| "step z (ManualSyncResults scriptErr rs) now e st =
     manualSyncCallback scriptErr rs now (setError e) st"

text \<open>
  The count an event carries to a path that writes an observed value: what
  \<^verbatim>\<open>updateStreakWithCount\<close> receives, or what a forced synchronisation stores.
\<close>

fun observedCount :: "event \<Rightarrow> jsval option" where
  "observedCount (ClickResults scriptErr rs res) =
     (case firstResult rs of Some (Some status) \<Rightarrow> Some (streakCount status) | _ \<Rightarrow> None)"
| "observedCount (ArticleResults scriptErr rs res) = extractedCount rs"
| "observedCount (UpdateStreakWithCount v res) = Some v"
| "observedCount (ForceSyncResults p scriptErr rs) = extractedCount rs"
| "observedCount (ManualSyncResults scriptErr rs) = extractedCount rs"
| "observedCount _ = None"

text \<open>The \<^verbatim>\<open>result\<close> of the read that an event of a reconciliation path works on.\<close>

fun readResult :: "event \<Rightarrow> store option" where
  "readResult (ClickResults scriptErr rs res) = Some res"
| "readResult (ArticleResults scriptErr rs res) = Some res"
| "readResult (UpdateStreak res) = Some res"
| "readResult (UpdateStreakWithCount v res) = Some res"
| "readResult _ = None"

text \<open>
  An event belongs to the day \<open>d\<close> of its handling when it is not the installation
  event and, if it completes a forced synchronisation, that synchronisation fixed its
  \<^verbatim>\<open>today\<close> on \<open>d\<close> as well.
\<close>

fun dayEvent :: "event \<Rightarrow> dateString \<Rightarrow> bool" where
  "dayEvent Installed d = False"
| "dayEvent (ForceSyncResults p scriptErr rs) d = (syncToday p = d)"
| "dayEvent _ d = True"

subsection \<open>The invariant on the synchronisation time\<close>

text \<open>\<open>lastSyncTime\<close> is non-null only if \<open>syncedWithDailyDev\<close> is true.\<close>

definition syncInvariant :: "store \<Rightarrow> bool" where
  "syncInvariant st = (lastSyncTime st = None \<or> syncedWithDailyDev st)"

subsection \<open>Concrete stores and inputs\<close>

text \<open>
  Day 10 is the current day in the examples, in UTC: it starts at \<open>864000000\<close> ms. A
  store whose streak of 7 was maintained on day 10 by internal tracking:
\<close>

definition maintainedStore :: store where
  "maintainedStore =
     \<lparr>streak = JNum (Fin 7), lastVisit = Some 10, streakMaintainedToday = True,
      syncedWithDailyDev = False, lastSyncTime = None\<rparr>"

text \<open>A store whose streak of 5 was synchronised from daily.dev on day 9:\<close>

definition syncedStore :: store where
  "syncedStore =
     \<lparr>streak = JNum (Fin 5), lastVisit = Some 9, streakMaintainedToday = True,
      syncedWithDailyDev = True, lastSyncTime = Some 800000000\<rparr>"

text \<open>A store whose streak of 42 was synchronised from daily.dev on day 10:\<close>

definition freshlySyncedStore :: store where
  "freshlySyncedStore =
     \<lparr>streak = JNum (Fin 42), lastVisit = Some 10, streakMaintainedToday = True,
      syncedWithDailyDev = True, lastSyncTime = Some 864000500\<rparr>"

definition noErrors :: lastErrors where
  "noErrors =
     \<lparr>getError = False, getError2 = False, setError = False, setError2 = False,
      tabError = False\<rparr>"

text \<open>A status object of \<^verbatim>\<open>clickFirstArticle\<close> after a click, with a given count.\<close>

definition clickedStatus :: "jsval \<Rightarrow> clickStatus" where
  "clickedStatus v =
     \<lparr>articlesFound = True, linkFound = True, clicked = True,
      articleUrl = Some ''https://app.daily.dev/posts/abc'', error = None, streakCount = v\<rparr>"


section \<open>Properties\<close>

subsection \<open>Rounding to a double\<close>

lemma bitLength_bounds: "2 ^ k \<le> n \<Longrightarrow> n < 2 ^ Suc k \<Longrightarrow> bitLength n = Suc k"
proof (induction k arbitrary: n)
  case 0
  then have "n = 1"
    by simp
  then show ?case
    by (simp add: bitLength.simps [of "Suc 0"] bitLength.simps [of 0])
next
  case (Suc k)
  have a: "2 ^ k \<le> n div 2"
    using Suc.prems(1) by simp
  have b: "n div 2 < 2 ^ Suc k"
    using Suc.prems(2) by simp
  have "(0::nat) < 2 ^ Suc k"
    by simp
  then have "n \<noteq> 0"
    using Suc.prems(1) by linarith
  then show ?case
    using Suc.IH [OF a b] by (simp add: bitLength.simps [of n])
qed

text \<open>Integers below \<open>2^53\<close> in magnitude are doubles: nothing is rounded.\<close>

lemma toDouble_exact:
  assumes "\<bar>x\<bar> < 2 ^ 53"
  shows "toDouble x = Fin x"
proof -
  have "(2::int) ^ 53 \<le> 2 ^ 1024"
    by (rule power_increasing) simp_all
  then have b: "\<not> (2::int) ^ 1024 \<le> \<bar>x\<bar>"
    using assms by linarith
  have c: "nat \<bar>x\<bar> < 2 ^ 53"
    using assms by (simp add: nat_less_iff)
  have d: "roundMagnitude (nat \<bar>x\<bar>) = nat \<bar>x\<bar>"
    using c by (simp add: roundMagnitude_def)
  have "(2::nat) ^ 53 \<le> 2 ^ 1024"
    by (rule power_increasing) simp_all
  then have e: "\<not> (2::nat) ^ 1024 \<le> nat \<bar>x\<bar>"
    using c by linarith
  show ?thesis
    unfolding toDouble_def using b d e by (simp add: Let_def)
qed


text \<open>At \<open>2^53\<close> the sum with 1 is a tie and rounds back: the counter no longer moves.\<close>

lemma js_add_rounds:
  "js_add (JNum (Fin 9007199254740992)) (JNum (Fin 1)) = JNum (Fin 9007199254740992)"
proof -
  have bl: "bitLength 9007199254740993 = 54"
    using bitLength_bounds [of 53 9007199254740993] by simp
  have rm: "roundMagnitude 9007199254740993 = 9007199254740992"
    unfolding roundMagnitude_def bl by (simp add: Let_def)
  have td: "toDouble 9007199254740993 = Fin 9007199254740992"
    unfolding toDouble_def by (simp add: rm Let_def)
  show ?thesis
    by (simp add: js_add_def td)
qed

lemma js_add_small: "js_add (JNum (Fin 5)) (JNum (Fin 1)) = JNum (Fin 6)"
  using toDouble_exact [of 6] by (simp add: js_add_def)

subsection \<open>Parsing a run of digits\<close>






subsection \<open>Calendar arithmetic\<close>

lemma day_start_le: "toDateString z now * MS_PER_DAY \<le> localTime z now"
  by (simp add: toDateString_def MS_PER_DAY_def)

lemma day_end_gt: "localTime z now < toDateString z now * MS_PER_DAY + MS_PER_DAY"
proof -
  have "localTime z now mod MS_PER_DAY < MS_PER_DAY"
    by (simp add: MS_PER_DAY_def)
  moreover have "localTime z now
      = toDateString z now * MS_PER_DAY + localTime z now mod MS_PER_DAY"
    by (simp add: toDateString_def)
  ultimately show ?thesis
    by linarith
qed

lemma toDateString_utc: "toDateString utcZone t = t div MS_PER_DAY"
  by (simp add: toDateString_def localTime_def utcZone_def fixedZone_def)

lemma day_10: "toDateString utcZone 864001000 = 10"
  by (simp add: toDateString_utc MS_PER_DAY_def)

lemma day_10_evening: "toDateString utcZone 928805000 = 10" "toDateString utcZone 928800000 = 10"
  by (simp_all add: toDateString_utc MS_PER_DAY_def)

lemma day_9: "toDateString utcZone 842400000 = 9"
  by (simp add: toDateString_utc MS_PER_DAY_def)

text \<open>
  When the wall-clock time of a day ago is read back unchanged, the day the code calls
  yesterday is the day before today; in a zone with one offset it always is.
\<close>

lemma yesterdayString_roundtrip:
  assumes "localTime z (utcTime z (localTime z now - MS_PER_DAY)) = localTime z now - MS_PER_DAY"
  shows "yesterdayString z now = toDateString z now - 1"
proof -
  have "yesterdayString z now = (localTime z now - MS_PER_DAY) div MS_PER_DAY"
    using assms by (simp add: yesterdayString_def addDays_def toDateString_def)
  also have "\<dots> = localTime z now div MS_PER_DAY - 1"
    by (simp add: MS_PER_DAY_def)
  finally show ?thesis
    by (simp add: toDateString_def)
qed

lemma yesterdayString_fixed:
  "yesterdayString (fixedZone k) now = toDateString (fixedZone k) now - 1"
  by (rule yesterdayString_roundtrip) (simp add: localTime_def utcTime_def fixedZone_def)

lemma yesterday_day_10: "yesterdayString utcZone 864001000 = 9"
  using yesterdayString_fixed [of 0 864001000] day_10 by (simp add: utcZone_def)

subsection \<open>The two reconciliation paths on a day already maintained\<close>

lemma updateStreakCallback_visited:
  "lastVisit res = Some (toDateString z now) \<Longrightarrow>
     updateStreakCallback z now getErr setErr res st = (st, [])"
  by (simp add: updateStreakCallback_def notVisited_def)

lemma updateStreak_same_day:
  "lastVisit st = Some (toDateString z now) \<Longrightarrow> updateStreak z now getErr setErr st = (st, [])"
  by (simp add: updateStreak_def updateStreakCallback_visited)

lemma updateStreakWithCount_same_day:
  assumes "lastVisit st = Some (toDateString z now)"
  shows "updateStreakWithCount v z now getErr setErr st =
           (if getErr \<or> setErr then st
            else st\<lparr>streak := v, streakMaintainedToday := True, syncedWithDailyDev := True,
                    lastSyncTime := Some now\<rparr>, [])"
  using assms
  by (simp add: updateStreakWithCount_def updateStreakWithCountCallback_def notVisited_def
      Let_def)

text \<open>
  Claim C1, as the code has it. On a store whose \<open>lastVisit\<close> is today,
  \<^verbatim>\<open>updateStreak\<close> is a no-op: the store is unchanged and nothing is notified, whatever
  the storage does. \<^verbatim>\<open>updateStreakWithCount\<close> leaves \<open>lastVisit\<close> as it is and
  notifies nothing, but it is not a no-op: it overwrites \<open>streak\<close> with the observed
  count and sets \<open>syncedWithDailyDev\<close>, \<open>lastSyncTime\<close> and
  \<open>streakMaintainedToday\<close>.
\<close>

theorem same_day_reconciliation:
  assumes "lastVisit st = Some (toDateString z now)"
  shows "updateStreak z now getErr setErr st = (st, []) \<and>
         updateStreakWithCount v z now False False st =
           (st\<lparr>streak := v, streakMaintainedToday := True, syncedWithDailyDev := True,
               lastSyncTime := Some now\<rparr>, []) \<and>
         lastVisit (fst (updateStreakWithCount v z now getErr setErr st)) = lastVisit st"
  using assms
  by (simp add: updateStreak_same_day updateStreakWithCount_same_day)

theorem same_day_reconciliation_witness:
  "lastVisit maintainedStore = Some (toDateString utcZone 864001000) \<and>
   updateStreak utcZone 864001000 False False maintainedStore = (maintainedStore, []) \<and>
   updateStreakWithCount (JNum (Fin 3)) utcZone 864001000 False False maintainedStore =
     (maintainedStore\<lparr>streak := JNum (Fin 3), streakMaintainedToday := True,
        syncedWithDailyDev := True, lastSyncTime := Some 864001000\<rparr>, [])"
proof -
  have h: "lastVisit maintainedStore = Some (toDateString utcZone 864001000)"
    by (simp add: maintainedStore_def day_10)
  show ?thesis
    using h same_day_reconciliation [OF h, of False False "JNum (Fin 3)"] by simp
qed

text \<open>
  The claim as the specification states it fails for the external path: with
  \<open>lastVisit\<close> equal to today and a stored streak of 7, an observed count of 3 replaces
  the streak and turns \<open>syncedWithDailyDev\<close> from false to true.
\<close>

theorem external_sync_same_day_counterexample:
  "lastVisit maintainedStore = Some (toDateString utcZone 864001000) \<and>
   streak (fst (updateStreakWithCount (JNum (Fin 3)) utcZone 864001000 False False
     maintainedStore)) \<noteq> streak maintainedStore \<and>
   syncedWithDailyDev
     (fst (updateStreakWithCount (JNum (Fin 3)) utcZone 864001000 False False maintainedStore))
     \<noteq> syncedWithDailyDev maintainedStore"
  by (simp add: updateStreakWithCount_def updateStreakWithCountCallback_def maintainedStore_def
      day_10 Let_def)

subsection \<open>Writing an observed count\<close>

lemma extractedCount_nonzero:
  "n \<noteq> 0 \<Longrightarrow> extractedCount (Some (Frame (JNum (Fin n)) # fs)) = Some (JNum (Fin n))"
  by (simp add: extractedCount_def isNaN_def)

lemma extractedCount_zero: "extractedCount (Some (Frame (JNum (Fin 0)) # fs)) = None"
  by (simp add: extractedCount_def)

text \<open>
  Claim C2, as the code has it. For every valid observed value, a non-negative integer
  \<open>n\<close>, and every prior store: when the read and the write of
  \<^verbatim>\<open>updateStreakWithCount\<close> have succeeded, whatever the read returned, the stored
  \<open>streak\<close> is \<open>n\<close>, \<open>syncedWithDailyDev\<close> is true, \<open>lastSyncTime\<close> is the
  current instant, \<open>lastVisit\<close> is today and \<open>streakMaintainedToday\<close> is true. The
  forced synchronisation of the alarm and the manual one of the popup write a count
  \<open>n\<close> other than 0 together with \<open>syncedWithDailyDev\<close> and \<open>lastSyncTime\<close>
  only; \<open>lastVisit\<close> and \<open>streakMaintainedToday\<close> are written by the alarm's
  synchronisation alone, when \<open>lastVisit\<close> was today as it started, and with the day
  fixed then. Both discard a count of 0 and leave the store as it is.
\<close>

theorem external_sync_overwrites:
  assumes "0 \<le> n"
  shows "updateStreakWithCountCallback (JNum (Fin n)) z now False False res st =
           (st\<lparr>streak := JNum (Fin n), lastVisit := Some (toDateString z now),
               streakMaintainedToday := True, syncedWithDailyDev := True,
               lastSyncTime := Some now\<rparr>,
            if notVisited res (toDateString z now)
            then [NotificationsCreate (StreakMaintainedSynced (JNum (Fin n)))] else []) \<and>
         (n \<noteq> 0 \<longrightarrow>
            fst (forceSyncCallback p False (Some (Frame (JNum (Fin n)) # fs)) now False setErr2 st) =
              (if alreadyMaintained p \<and> \<not> setErr2
               then st\<lparr>streak := JNum (Fin n), lastVisit := Some (syncToday p),
                       streakMaintainedToday := True, syncedWithDailyDev := True,
                       lastSyncTime := Some now\<rparr>
               else st\<lparr>streak := JNum (Fin n), syncedWithDailyDev := True,
                       lastSyncTime := Some now\<rparr>) \<and>
            fst (manualSyncCallback False (Some (Frame (JNum (Fin n)) # fs)) now False st) =
              st\<lparr>streak := JNum (Fin n), syncedWithDailyDev := True,
                  lastSyncTime := Some now\<rparr>) \<and>
         fst (forceSyncCallback p False (Some (Frame (JNum (Fin 0)) # fs)) now setErr setErr2 st)
           = st \<and>
         fst (manualSyncCallback False (Some (Frame (JNum (Fin 0)) # fs)) now setErr st) = st"
  by (simp add: updateStreakWithCountCallback_def forceSyncCallback_def manualSyncCallback_def
      extractedCount_nonzero extractedCount_zero Let_def)

theorem external_sync_overwrites_witness:
  "(0::int) \<le> 42 \<and>
   streak syncedStore = JNum (Fin 5) \<and>
   fst (updateStreakWithCountCallback (JNum (Fin 42)) utcZone 864001000 False False syncedStore
     syncedStore) =
     \<lparr>streak = JNum (Fin 42), lastVisit = Some 10, streakMaintainedToday = True,
      syncedWithDailyDev = True, lastSyncTime = Some 864001000\<rparr> \<and>
   fst (manualSyncCallback False (Some [Frame (JNum (Fin 42))]) 864001000 False syncedStore) =
     \<lparr>streak = JNum (Fin 42), lastVisit = Some 9, streakMaintainedToday = True,
      syncedWithDailyDev = True, lastSyncTime = Some 864001000\<rparr>"
proof -
  have h: "(0::int) \<le> 42"
    by simp
  show ?thesis
    using external_sync_overwrites [OF h, of utcZone 864001000 syncedStore syncedStore]
    by (simp add: day_10 syncedStore_def)
qed

text \<open>
  The claim as the specification states it fails for the forced synchronisation: on the
  installed store, a synchronisation that starts at 18:00 of day 10 and extracts 42
  stores the 42 and leaves \<open>lastVisit\<close> null and \<open>streakMaintainedToday\<close> false.
\<close>

theorem force_sync_leaves_visit_counterexample:
  "streak (fst (forceSyncCallback (forceSyncClosure utcZone 928800000 installedStore) False
     (Some [Frame (JNum (Fin 42))]) 928805000 False False installedStore)) = JNum (Fin 42) \<and>
   lastVisit (fst (forceSyncCallback (forceSyncClosure utcZone 928800000 installedStore) False
     (Some [Frame (JNum (Fin 42))]) 928805000 False False installedStore)) = None \<and>
   \<not> streakMaintainedToday (fst (forceSyncCallback
     (forceSyncClosure utcZone 928800000 installedStore) False
     (Some [Frame (JNum (Fin 42))]) 928805000 False False installedStore))"
  by (simp add: forceSyncCallback_def forceSyncClosure_def installedStore_def
      extractedCount_nonzero Let_def)

subsection \<open>The internal path\<close>

text \<open>
  Claim C3. On a store whose \<open>lastVisit\<close> is not today, \<^verbatim>\<open>updateStreak\<close> (with
  the storage working and no other write in between) sets \<open>lastVisit\<close> to today,
  \<open>streakMaintainedToday\<close> to true and \<open>syncedWithDailyDev\<close> to false. If
  \<open>lastVisit\<close> was yesterday, the new streak is \<^verbatim>\<open>result.streak + 1\<close>, which for a
  stored integer \<open>n\<close> with \<open>n + 1\<close> below \<open>2^53\<close> in magnitude is \<open>n + 1\<close>; if
  \<open>lastVisit\<close> was null or a day before yesterday, the new streak is 1. Yesterday is
  the day the code computes with \<^verbatim>\<open>setDate(getDate() - 1)\<close>: the day before today
  whenever that wall-clock time is read back unchanged.
\<close>

theorem internal_increment:
  assumes "lastVisit st \<noteq> Some (toDateString z now)"
  shows "let st' = fst (updateStreak z now False False st)
         in lastVisit st' = Some (toDateString z now) \<and>
            streakMaintainedToday st' \<and>
            \<not> syncedWithDailyDev st' \<and>
            (lastVisit st = Some (yesterdayString z now) \<longrightarrow>
               streak st' = js_add (streak st) (JNum (Fin 1)) \<and>
               (\<forall>n. streak st = JNum (Fin n) \<and> \<bar>n + 1\<bar> < 2 ^ 53 \<longrightarrow>
                  streak st' = JNum (Fin (n + 1)))) \<and>
            (lastVisit st = None \<or> (\<exists>d. lastVisit st = Some d \<and> d < yesterdayString z now) \<longrightarrow>
               streak st' = JNum (Fin 1)) \<and>
            (localTime z (utcTime z (localTime z now - MS_PER_DAY)) = localTime z now - MS_PER_DAY
               \<longrightarrow> yesterdayString z now = toDateString z now - 1)"
proof -
  have w: "fst (updateStreak z now False False st) =
             st\<lparr>streak := newStreak z now st, lastVisit := Some (toDateString z now),
                streakMaintainedToday := True, syncedWithDailyDev := False\<rparr>"
    using assms by (simp add: updateStreak_def updateStreakCallback_def notVisited_def Let_def)
  have a: "lastVisit st = Some (yesterdayString z now) \<longrightarrow>
             newStreak z now st = js_add (streak st) (JNum (Fin 1))"
    by (simp add: newStreak_def)
  have b: "\<forall>n. streak st = JNum (Fin n) \<and> \<bar>n + 1\<bar> < 2 ^ 53 \<longrightarrow>
             js_add (streak st) (JNum (Fin 1)) = JNum (Fin (n + 1))"
    by (simp add: js_add_def toDouble_exact)
  have c: "lastVisit st = None \<or> (\<exists>d. lastVisit st = Some d \<and> d < yesterdayString z now) \<longrightarrow>
             newStreak z now st = JNum (Fin 1)"
    by (auto simp add: newStreak_def)
  have d: "localTime z (utcTime z (localTime z now - MS_PER_DAY)) = localTime z now - MS_PER_DAY
             \<longrightarrow> yesterdayString z now = toDateString z now - 1"
    by (simp add: yesterdayString_roundtrip)
  show ?thesis
    unfolding Let_def w using a b c d by simp
qed

theorem internal_increment_witness:
  "lastVisit syncedStore \<noteq> Some (toDateString utcZone 864001000) \<and>
   lastVisit syncedStore = Some (yesterdayString utcZone 864001000) \<and>
   streak syncedStore = JNum (Fin 5) \<and>
   streak (fst (updateStreak utcZone 864001000 False False syncedStore)) = JNum (Fin 6) \<and>
   lastVisit (fst (updateStreak utcZone 864001000 False False syncedStore)) = Some 10"
proof -
  have h: "lastVisit syncedStore \<noteq> Some (toDateString utcZone 864001000)"
    by (simp add: day_10 syncedStore_def)
  have s: "lastVisit syncedStore = Some (yesterdayString utcZone 864001000)"
    "streak syncedStore = JNum (Fin 5)"
    by (simp_all add: yesterday_day_10 syncedStore_def)
  have n: "\<bar>(5::int) + 1\<bar> < 2 ^ 53"
    by simp
  show ?thesis
    using h s n internal_increment [OF h] by (simp add: Let_def day_10 js_add_small)
qed

subsection \<open>The next time of an alarm\<close>

lemma steady_setHours:
  assumes "steadyOffset z now hour minute"
  shows "setHours z now hour minute = wallClock z now hour minute - offsetAtUTC z now"
  using assms by (simp add: steadyOffset_def setHours_def utcTime_def Let_def)

lemma steady_tomorrow:
  assumes "steadyOffset z now hour minute"
  shows "addDays z (setHours z now hour minute) 1 = setHours z now hour minute + MS_PER_DAY"
proof -
  let ?k = "offsetAtUTC z now"
  let ?w = "wallClock z now hour minute"
  have a: "offsetAtUTC z (?w - ?k) = ?k" and b: "offsetAtLocal z (?w + MS_PER_DAY) = ?k"
    using assms by (simp_all add: steadyOffset_def Let_def)
  have l: "localTime z (?w - ?k) = ?w"
    by (simp add: localTime_def a)
  show ?thesis
    unfolding steady_setHours [OF assms] addDays_def l
    by (simp add: utcTime_def b)
qed

lemma time_of_day_bounds:
  assumes "0 \<le> hour * 60 + minute" "hour * 60 + minute < 1440"
  shows "toDateString z now * MS_PER_DAY \<le> wallClock z now hour minute"
    and "wallClock z now hour minute < toDateString z now * MS_PER_DAY + MS_PER_DAY"
proof -
  have e: "hour * (60 * 60 * 1000) + minute * (60 * 1000) = (hour * 60 + minute) * 60000"
    by (simp add: algebra_simps)
  have lo: "0 \<le> (hour * 60 + minute) * 60000"
    using assms(1) by simp
  have "hour * 60 + minute \<le> 1439"
    using assms(2) by simp
  then have hi: "(hour * 60 + minute) * 60000 \<le> 1439 * 60000"
    by simp
  show "toDateString z now * MS_PER_DAY \<le> wallClock z now hour minute"
    unfolding wallClock_def using e lo by linarith
  show "wallClock z now hour minute < toDateString z now * MS_PER_DAY + MS_PER_DAY"
    unfolding wallClock_def MS_PER_DAY_def using e hi by linarith
qed

text \<open>
  Claim C7, as the code has it. For every hour, minute and clock reading,
  \<^verbatim>\<open>getNextReminderTime\<close> returns today at (hour, minute) if that instant is not
  before \<open>now\<close>, the instant \<open>now\<close> itself included, and otherwise that instant moved
  by \<^verbatim>\<open>setDate(getDate() + 1)\<close> to tomorrow; the result is a function of hour, minute
  and the clock reading alone. When (hour, minute) is a time of day (from 0:00 to 23:59)
  and the offset of the zone is steady from \<open>now\<close> to tomorrow's (hour, minute), the
  result is never before \<open>now\<close>, it equals \<open>now\<close> exactly when \<open>now\<close> is today at
  (hour, minute) to the millisecond, it is less than 24 hours away, and tomorrow at
  (hour, minute) is 24 hours after today at (hour, minute).
\<close>

theorem next_reminder_time:
  "getNextReminderTime z hour minute now =
     (if now \<le> setHours z now hour minute then setHours z now hour minute
      else addDays z (setHours z now hour minute) 1) \<and>
   (steadyOffset z now hour minute \<and> 0 \<le> hour * 60 + minute \<and> hour * 60 + minute < 1440 \<longrightarrow>
      now \<le> getNextReminderTime z hour minute now \<and>
      getNextReminderTime z hour minute now - now < MS_PER_DAY \<and>
      (getNextReminderTime z hour minute now = now \<longleftrightarrow> now = setHours z now hour minute) \<and>
      addDays z (setHours z now hour minute) 1 = setHours z now hour minute + MS_PER_DAY)"
proof -
  let ?r = "setHours z now hour minute"
  have eq: "getNextReminderTime z hour minute now = (if now \<le> ?r then ?r else addDays z ?r 1)"
    by (simp add: getNextReminderTime_def Let_def not_le)
  have bounds: "now \<le> getNextReminderTime z hour minute now \<and>
      getNextReminderTime z hour minute now - now < MS_PER_DAY \<and>
      (getNextReminderTime z hour minute now = now \<longleftrightarrow> now = ?r) \<and>
      addDays z ?r 1 = ?r + MS_PER_DAY"
    if s: "steadyOffset z now hour minute"
      and t: "0 \<le> hour * 60 + minute" "hour * 60 + minute < 1440"
  proof -
    let ?k = "offsetAtUTC z now"
    let ?w = "wallClock z now hour minute"
    have r: "?r = ?w - ?k"
      by (rule steady_setHours [OF s])
    have tm: "addDays z ?r 1 = ?r + MS_PER_DAY"
      by (rule steady_tomorrow [OF s])
    have lo: "toDateString z now * MS_PER_DAY \<le> ?w"
      and hi: "?w < toDateString z now * MS_PER_DAY + MS_PER_DAY"
      using time_of_day_bounds [OF t] by simp_all
    have a: "toDateString z now * MS_PER_DAY \<le> now + ?k"
      using day_start_le [of z now] by (simp add: localTime_def)
    have b: "now + ?k < toDateString z now * MS_PER_DAY + MS_PER_DAY"
      using day_end_gt [of z now] by (simp add: localTime_def)
    show ?thesis
      unfolding eq tm using r lo hi a b by auto
  qed
  show ?thesis
    using eq bounds by blast
qed

lemma steady_fixed: "steadyOffset (fixedZone k) now hour minute"
  by (simp add: steadyOffset_def fixedZone_def Let_def)

theorem next_reminder_time_witness:
  "steadyOffset utcZone 70000000 19 0 \<and> (0::int) \<le> 19 * 60 + 0 \<and> (19::int) * 60 + 0 < 1440 \<and>
   getNextReminderTime utcZone 19 0 70000000 = 154800000 \<and>
   (70000000::int) \<le> getNextReminderTime utcZone 19 0 70000000 \<and>
   getNextReminderTime utcZone 19 0 70000000 - 70000000 < MS_PER_DAY"
proof -
  have s: "steadyOffset utcZone 70000000 19 0"
    by (simp add: utcZone_def steady_fixed)
  have r: "setHours utcZone 70000000 19 0 = 68400000"
    unfolding setHours_def wallClock_def toDateString_utc
    by (simp add: utcTime_def utcZone_def fixedZone_def MS_PER_DAY_def)
  show ?thesis
    using s next_reminder_time [of utcZone 19 0 70000000]
    by (simp add: r MS_PER_DAY_def)
qed

text \<open>
  The bounds of the specification fail in three ways. At 19:00:00.000 exactly the 19:00
  alarm is scheduled for that very instant, since the code moves to tomorrow only when
  \<^verbatim>\<open>now > reminder\<close>. In New York at 19:00:00.001 on 2026-10-31, the evening before
  the clocks go back, tomorrow's 19:00 is 25 hours less one millisecond away. And an
  hour of 25 at midnight gives an instant 25 hours away.
\<close>

theorem next_reminder_bounds_counterexample:
  "\<not> (68400000 < getNextReminderTime utcZone 19 0 68400000) \<and>
   getNextReminderTime newYork2026 19 0 1793487600001 - 1793487600001
     = MS_PER_DAY + 3599999 \<and>
   getNextReminderTime utcZone 25 0 0 - 0 = MS_PER_DAY + 3600000"
  by (simp add: getNextReminderTime_def setHours_def wallClock_def addDays_def utcTime_def
      localTime_def toDateString_def utcZone_def fixedZone_def newYork2026_def
      transitionZone_def MS_PER_DAY_def Let_def)

subsection \<open>The guard on an observed count\<close>

lemma articleReached_clicked: "articleReached (clickedStatus v)"
  by (simp add: articleReached_def clickedStatus_def)

lemma streakCount_clicked: "streakCount (clickedStatus v) = v"
  by (simp add: clickedStatus_def)








subsection \<open>The synchronisation time\<close>

text \<open>
  Claim C6, as the code has it. The invariant holds in the installed state and is
  preserved by the initialisation and by every write of an observed count
  (\<^verbatim>\<open>updateStreakWithCount\<close>, the forced and the manual synchronisation). The internal
  path never writes \<open>lastSyncTime\<close>: it keeps the invariant when \<open>lastSyncTime\<close>
  is null or when the call is a same-day no-op.
\<close>

theorem sync_time_invariant:
  assumes "syncInvariant st"
  shows "syncInvariant installedStore \<and>
         syncInvariant (fst (onInstalled z now setErr st)) \<and>
         syncInvariant (fst (updateStreakWithCount v z now getErr setErr st)) \<and>
         syncInvariant (fst (forceSyncCallback p scriptErr rs now setErr setErr2 st)) \<and>
         syncInvariant (fst (manualSyncCallback scriptErr rs now setErr st)) \<and>
         lastSyncTime (fst (updateStreak z now getErr setErr st)) = lastSyncTime st \<and>
         (lastSyncTime st = None \<or> lastVisit st = Some (toDateString z now) \<longrightarrow>
            syncInvariant (fst (updateStreak z now getErr setErr st)))"
proof -
  have i: "syncInvariant installedStore"
    by (simp add: syncInvariant_def installedStore_def)
  have a: "syncInvariant (fst (onInstalled z now setErr st))"
    using assms i by (simp add: onInstalled_def)
  have b: "syncInvariant (fst (updateStreakWithCount v z now getErr setErr st))"
    using assms
    by (simp add: updateStreakWithCount_def updateStreakWithCountCallback_def Let_def
        syncInvariant_def)
  have c: "syncInvariant (fst (forceSyncCallback p scriptErr rs now setErr setErr2 st))"
    using assms
    by (simp add: forceSyncCallback_def Let_def syncInvariant_def split: option.splits)
  have d: "syncInvariant (fst (manualSyncCallback scriptErr rs now setErr st))"
    using assms
    by (simp add: manualSyncCallback_def syncInvariant_def split: option.splits)
  have e: "lastSyncTime (fst (updateStreak z now getErr setErr st)) = lastSyncTime st"
    by (simp add: updateStreak_def updateStreakCallback_def Let_def)
  have f: "lastSyncTime st = None \<or> lastVisit st = Some (toDateString z now) \<longrightarrow>
            syncInvariant (fst (updateStreak z now getErr setErr st))"
    using assms
    by (auto simp add: updateStreak_def updateStreakCallback_def Let_def syncInvariant_def
        notVisited_def)
  show ?thesis
    using i a b c d e f by blast
qed

theorem sync_time_invariant_witness:
  "syncInvariant syncedStore \<and>
   syncInvariant (fst (updateStreakWithCount (JNum (Fin 6)) utcZone 864001000 False False
     syncedStore)) \<and>
   lastSyncTime (fst (updateStreak utcZone 864001000 False False syncedStore)) = Some 800000000"
proof -
  have h: "syncInvariant syncedStore"
    by (simp add: syncInvariant_def syncedStore_def)
  show ?thesis
    using h sync_time_invariant [OF h, of utcZone 864001000 False "JNum (Fin 6)" False]
    by (simp add: syncedStore_def)
qed

text \<open>
  The claim as the specification states it fails for the internal path: a streak
  synchronised on day 9 and continued by \<^verbatim>\<open>updateStreak\<close> on day 10 has
  \<open>syncedWithDailyDev\<close> false beside the \<open>lastSyncTime\<close> of day 9.
\<close>

theorem internal_path_breaks_invariant_counterexample:
  "syncInvariant syncedStore \<and>
   \<not> syncInvariant (fst (updateStreak utcZone 864001000 False False syncedStore))"
  by (simp add: syncInvariant_def syncedStore_def updateStreak_def updateStreakCallback_def
      notVisited_def Let_def day_10)

subsection \<open>A day already maintained stays maintained\<close>

lemma step_TabUpdated_store: "fst (step z (TabUpdated complete url) now e st) = st"
  by (simp add: onTabUpdated_def handleDailyDevPageLoad_def)

lemma step_AlarmFired_store: "fst (step z (AlarmFired name) now e st) = st"
  by (simp add: onAlarm_def forceSyncStreakFromDailyDev_def checkStreakAndNotify_def
      executeStreakFailsafe_def)

lemma step_MessageReceived_store: "fst (step z (MessageReceived action) now e st) = st"
  by (simp add: onMessage_def)

text \<open>
  A write of the internal path lands only when its read did not show today's visit; it
  then carries the increment computed from that read.
\<close>

lemma internal_write_kept:
  assumes "lastVisit st = Some (toDateString z now)"
  shows "lastVisit (fst (updateStreakCallback z now g s res st)) = Some (toDateString z now) \<and>
         (streakMaintainedToday st \<longrightarrow>
            streakMaintainedToday (fst (updateStreakCallback z now g s res st))) \<and>
         (streak (fst (updateStreakCallback z now g s res st)) = streak st \<or>
          notVisited res (toDateString z now) \<and>
          streak (fst (updateStreakCallback z now g s res st)) = newStreak z now res)"
  using assms by (simp add: updateStreakCallback_def Let_def)

lemma external_write_kept:
  assumes "lastVisit st = Some (toDateString z now)"
  shows "lastVisit (fst (updateStreakWithCountCallback v z now g s res st))
           = Some (toDateString z now) \<and>
         (streakMaintainedToday st \<longrightarrow>
            streakMaintainedToday (fst (updateStreakWithCountCallback v z now g s res st))) \<and>
         (streak (fst (updateStreakWithCountCallback v z now g s res st)) = streak st \<or>
          streak (fst (updateStreakWithCountCallback v z now g s res st)) = v)"
  using assms by (simp add: updateStreakWithCountCallback_def Let_def)

lemma day_kept_click:
  assumes "lastVisit st = Some (toDateString z now)"
  shows "lastVisit (fst (step z (ClickResults se rs res) now e st)) = Some (toDateString z now) \<and>
         (streakMaintainedToday st \<longrightarrow>
            streakMaintainedToday (fst (step z (ClickResults se rs res) now e st))) \<and>
         (streak (fst (step z (ClickResults se rs res) now e st)) = streak st \<or>
          observedCount (ClickResults se rs res)
            = Some (streak (fst (step z (ClickResults se rs res) now e st))) \<or>
          notVisited res (toDateString z now) \<and>
          streak (fst (step z (ClickResults se rs res) now e st)) = newStreak z now res)"
  using assms internal_write_kept [OF assms, of "getError e" "setError e" res]
  by (auto simp add: clickArticleCallback_def dest: external_write_kept split: option.splits)

lemma day_kept_article:
  assumes "lastVisit st = Some (toDateString z now)"
  shows "lastVisit (fst (step z (ArticleResults se rs res) now e st))
           = Some (toDateString z now) \<and>
         (streakMaintainedToday st \<longrightarrow>
            streakMaintainedToday (fst (step z (ArticleResults se rs res) now e st))) \<and>
         (streak (fst (step z (ArticleResults se rs res) now e st)) = streak st \<or>
          observedCount (ArticleResults se rs res)
            = Some (streak (fst (step z (ArticleResults se rs res) now e st))) \<or>
          notVisited res (toDateString z now) \<and>
          streak (fst (step z (ArticleResults se rs res) now e st)) = newStreak z now res)"
  using assms internal_write_kept [OF assms, of "getError e" "setError e" res]
  by (auto simp add: articleLoadCallback_def dest: external_write_kept split: option.splits)

lemma day_kept_forceSync:
  assumes "lastVisit st = Some (toDateString z now)" "syncToday p = toDateString z now"
  shows "lastVisit (fst (step z (ForceSyncResults p se rs) now e st))
           = Some (toDateString z now) \<and>
         (streakMaintainedToday st \<longrightarrow>
            streakMaintainedToday (fst (step z (ForceSyncResults p se rs) now e st))) \<and>
         (streak (fst (step z (ForceSyncResults p se rs) now e st)) = streak st \<or>
          observedCount (ForceSyncResults p se rs)
            = Some (streak (fst (step z (ForceSyncResults p se rs) now e st))))"
  using assms
  by (auto simp add: forceSyncCallback_def Let_def split: option.splits)

lemma day_kept_manualSync:
  assumes "lastVisit st = Some (toDateString z now)"
  shows "lastVisit (fst (step z (ManualSyncResults se rs) now e st))
           = Some (toDateString z now) \<and>
         (streakMaintainedToday st \<longrightarrow>
            streakMaintainedToday (fst (step z (ManualSyncResults se rs) now e st))) \<and>
         (streak (fst (step z (ManualSyncResults se rs) now e st)) = streak st \<or>
          observedCount (ManualSyncResults se rs)
            = Some (streak (fst (step z (ManualSyncResults se rs) now e st))))"
  using assms
  by (auto simp add: manualSyncCallback_def split: option.splits)

text \<open>
  Claim C4, as the code has it. Once \<open>lastVisit\<close> is today, no callback handled the
  same day moves \<open>lastVisit\<close> off today or turns \<open>streakMaintainedToday\<close> from true
  to false, whatever the storage does and whatever a read returned, provided the callback
  is not the \<^verbatim>\<open>onInstalled\<close> listener and, if it completes a forced synchronisation,
  that synchronisation started today as well: a page load, the result of a click or of
  an extraction, either reconciliation path, any alarm, a popup request, a manual
  synchronisation. The stored \<open>streak\<close> is not protected. It is left as it was, or
  replaced by the count the event observed, written as it is, also when it is lower; or,
  when the read of the internal path did not yet show today's visit, replaced by the
  increment computed from that read.
\<close>

theorem maintained_day_monotonic:
  assumes "lastVisit st = Some (toDateString z now)"
    and "dayEvent ev (toDateString z now)"
  shows "lastVisit (fst (step z ev now e st)) = Some (toDateString z now) \<and>
         (streakMaintainedToday st \<longrightarrow> streakMaintainedToday (fst (step z ev now e st))) \<and>
         (streak (fst (step z ev now e st)) = streak st \<or>
          observedCount ev = Some (streak (fst (step z ev now e st))) \<or>
          (\<exists>r. readResult ev = Some r \<and> notVisited r (toDateString z now) \<and>
             streak (fst (step z ev now e st)) = newStreak z now r))"
proof (cases ev)
  case Installed
  then show ?thesis
    using assms(2) by simp
next
  case (TabUpdated complete url)
  then show ?thesis
    using assms(1) by (simp only: step_TabUpdated_store) simp
next
  case (ClickResults se rs res)
  then show ?thesis
    using day_kept_click [OF assms(1), of se rs res e] by auto
next
  case (ArticleResults se rs res)
  then show ?thesis
    using day_kept_article [OF assms(1), of se rs res e] by auto
next
  case (UpdateStreak res)
  then show ?thesis
    using internal_write_kept [OF assms(1), of "getError e" "setError e" res] by auto
next
  case (UpdateStreakWithCount v res)
  then show ?thesis
    using external_write_kept [OF assms(1), of v "getError e" "setError e" res] by auto
next
  case (AlarmFired name)
  then show ?thesis
    using assms(1) by (simp only: step_AlarmFired_store) simp
next
  case (ForceSyncResults p se rs)
  then show ?thesis
    using day_kept_forceSync [OF assms(1), of p se rs e] assms(2) by simp
next
  case (MessageReceived action)
  then show ?thesis
    using assms(1) by (simp only: step_MessageReceived_store) simp
next
  case (ManualSyncResults se rs)
  then show ?thesis
    using day_kept_manualSync [OF assms(1), of se rs e] by simp
qed

theorem maintained_day_monotonic_witness:
  "lastVisit maintainedStore = Some (toDateString utcZone 928805000) \<and>
   dayEvent (ForceSyncResults (forceSyncClosure utcZone 928800000 maintainedStore) False
     (Some [Frame (JNum (Fin 9))])) (toDateString utcZone 928805000) \<and>
   lastVisit (fst (step utcZone (ForceSyncResults (forceSyncClosure utcZone 928800000
     maintainedStore) False (Some [Frame (JNum (Fin 9))])) 928805000 noErrors maintainedStore))
     = Some 10 \<and>
   streakMaintainedToday (fst (step utcZone (ForceSyncResults (forceSyncClosure utcZone 928800000
     maintainedStore) False (Some [Frame (JNum (Fin 9))])) 928805000 noErrors maintainedStore))"
proof -
  have h: "lastVisit maintainedStore = Some (toDateString utcZone 928805000)"
    by (simp add: maintainedStore_def day_10_evening)
  have s: "dayEvent (ForceSyncResults (forceSyncClosure utcZone 928800000 maintainedStore) False
     (Some [Frame (JNum (Fin 9))])) (toDateString utcZone 928805000)"
    by (simp add: forceSyncClosure_def day_10_evening)
  have m: "streakMaintainedToday maintainedStore"
    by (simp add: maintainedStore_def)
  show ?thesis
    using h s m maintained_day_monotonic [OF h s, of noErrors]
    by (simp add: day_10_evening)
qed

text \<open>
  The claim as the specification states it fails in four ways, each on a store whose
  \<open>lastVisit\<close> is today. The forced synchronisation of 18:00 that extracts a 3 stores
  3 over a streak of 7. The \<^verbatim>\<open>onInstalled\<close> listener, which the browser also calls
  when the extension is updated, resets the store. A forced synchronisation that
  started at 23:59:58 of day 9, on a day then maintained, and completes at 00:00:01 of
  day 10, after the visit of day 10, writes the \<^verbatim>\<open>today\<close> of its closure and moves
  \<open>lastVisit\<close> back to day 9. And an internal write whose read still saw the store of
  day 9 lands after a synchronisation has stored 42, and replaces the 42 by 6.
\<close>

theorem maintained_day_counterexample:
  "lastVisit maintainedStore = Some (toDateString utcZone 928805000) \<and>
   streak maintainedStore = JNum (Fin 7) \<and>
   streak (fst (step utcZone (ForceSyncResults (forceSyncClosure utcZone 928800000
     maintainedStore) False (Some [Frame (JNum (Fin 3))])) 928805000 noErrors maintainedStore))
     = JNum (Fin 3) \<and>
   fst (step utcZone Installed 928805000 noErrors maintainedStore) = installedStore \<and>
   lastVisit (fst (updateStreak utcZone 864000500 False False syncedStore))
     = Some (toDateString utcZone 864001000) \<and>
   lastVisit (fst (step utcZone (ForceSyncResults (forceSyncClosure utcZone 863998000
     syncedStore) False (Some [Frame (JNum (Fin 5))])) 864001000 noErrors
     (fst (updateStreak utcZone 864000500 False False syncedStore)))) = Some 9 \<and>
   lastVisit freshlySyncedStore = Some (toDateString utcZone 864001000) \<and>
   streak freshlySyncedStore = JNum (Fin 42) \<and>
   streak (fst (step utcZone (UpdateStreak syncedStore) 864001000 noErrors freshlySyncedStore))
     = JNum (Fin 6)"
proof -
  have d: "toDateString utcZone 864000500 = 10" "toDateString utcZone 863998000 = 9"
    by (simp_all add: toDateString_utc MS_PER_DAY_def)
  have y: "yesterdayString utcZone 864001000 = 9"
    by (rule yesterday_day_10)
  have a: "streak (fst (step utcZone (ForceSyncResults (forceSyncClosure utcZone 928800000
     maintainedStore) False (Some [Frame (JNum (Fin 3))])) 928805000 noErrors maintainedStore))
     = JNum (Fin 3)"
    by (simp add: forceSyncCallback_def extractedCount_nonzero noErrors_def Let_def)
  have b: "fst (step utcZone Installed 928805000 noErrors maintainedStore) = installedStore"
    by (simp add: onInstalled_def noErrors_def)
  have c1: "lastVisit (fst (updateStreak utcZone 864000500 False False syncedStore))
     = Some (toDateString utcZone 864001000)"
    by (simp add: updateStreak_def updateStreakCallback_def notVisited_def syncedStore_def d
        day_10 Let_def)
  have c2: "lastVisit (fst (step utcZone (ForceSyncResults (forceSyncClosure utcZone 863998000
     syncedStore) False (Some [Frame (JNum (Fin 5))])) 864001000 noErrors
     (fst (updateStreak utcZone 864000500 False False syncedStore)))) = Some 9"
    by (simp add: forceSyncCallback_def forceSyncClosure_def extractedCount_nonzero
        noErrors_def syncedStore_def d Let_def)
  have e: "streak (fst (step utcZone (UpdateStreak syncedStore) 864001000 noErrors
     freshlySyncedStore)) = JNum (Fin 6)"
    by (simp add: updateStreakCallback_def notVisited_def newStreak_def syncedStore_def
        noErrors_def day_10 y js_add_small Let_def)
  show ?thesis
    using a b c1 c2 e
    by (simp add: maintainedStore_def freshlySyncedStore_def day_10 day_10_evening)
qed

subsection \<open>Reminders\<close>

text \<open>
  Claim C8. When the alarm \<^verbatim>\<open>firstStreakReminder\<close> or \<^verbatim>\<open>secondStreakReminder\<close>
  fires, the store is unchanged in every case; if \<open>lastVisit\<close> is today no browser
  call is made at all; and the only call ever made is the one reminder notification,
  which needs \<open>lastVisit\<close> not to be today. The same holds of
  \<^verbatim>\<open>checkStreakAndNotify\<close> on its own.
\<close>

theorem reminder_read_only:
  assumes "name = ''firstStreakReminder'' \<or> name = ''secondStreakReminder''"
  shows "fst (onAlarm name z now getErr getErr2 tabErr st) = st \<and>
         (lastVisit st = Some (toDateString z now) \<longrightarrow>
            snd (onAlarm name z now getErr getErr2 tabErr st) = []) \<and>
         (snd (onAlarm name z now getErr getErr2 tabErr st) = [] \<or>
          lastVisit st \<noteq> Some (toDateString z now) \<and>
          snd (onAlarm name z now getErr getErr2 tabErr st) =
            [NotificationsCreate (StreakReminder (name = ''secondStreakReminder''))]) \<and>
         fst (checkStreakAndNotify isUrgent z now getErr st) = st \<and>
         (lastVisit st = Some (toDateString z now) \<longrightarrow>
            snd (checkStreakAndNotify isUrgent z now getErr st) = [])"
  using assms
  by (auto simp add: onAlarm_def checkStreakAndNotify_def notVisited_def)

theorem reminder_read_only_witness:
  "fst (onAlarm ''firstStreakReminder'' utcZone 864001000 False False False maintainedStore)
     = maintainedStore \<and>
   snd (onAlarm ''firstStreakReminder'' utcZone 864001000 False False False maintainedStore)
     = [] \<and>
   onAlarm ''secondStreakReminder'' utcZone 864001000 False False False syncedStore
     = (syncedStore, [NotificationsCreate (StreakReminder True)])"
proof -
  have a: "lastVisit maintainedStore = Some (toDateString utcZone 864001000)"
    by (simp add: day_10 maintainedStore_def)
  have b: "onAlarm ''secondStreakReminder'' utcZone 864001000 False False False syncedStore
     = (syncedStore, [NotificationsCreate (StreakReminder True)])"
    by (simp add: onAlarm_def checkStreakAndNotify_def notVisited_def day_10 syncedStore_def)
  show ?thesis
    using a b reminder_read_only [of "''firstStreakReminder''" utcZone 864001000 False False
        False maintainedStore]
    by simp
qed

subsection \<open>Storage failures\<close>

text \<open>
  Claim C9. In every function that starts with a \<^verbatim>\<open>chrome.storage.local.get\<close>, a
  failed read returns at once: the store is unchanged and no browser call follows. The
  same holds when the write of a reconciliation path fails. The \<^verbatim>\<open>onInstalled\<close>
  listener starts with a write; when it fails the store is unchanged and nothing is
  notified, clicked, opened or written, while the alarms, which the listener creates
  outside the callback of the write, are created as on success.
\<close>

theorem storage_failure_aborts:
  "updateStreak z now True setErr st = (st, []) \<and>
   updateStreak z now getErr True st = (st, []) \<and>
   updateStreakWithCount v z now True setErr st = (st, []) \<and>
   updateStreakWithCount v z now getErr True st = (st, []) \<and>
   handleDailyDevPageLoad z now True st = (st, []) \<and>
   forceSyncStreakFromDailyDev z now True tabErr st = (st, []) \<and>
   onAlarm name z now True getErr2 tabErr st = (st, []) \<and>
   checkStreakAndNotify isUrgent z now True st = (st, []) \<and>
   executeStreakFailsafe z now True tabErr st = (st, []) \<and>
   onInstalled z now True st = (st, setupAlarms z now)"
  by (simp add: updateStreak_def updateStreakCallback_def updateStreakWithCount_def
      updateStreakWithCountCallback_def handleDailyDevPageLoad_def
      forceSyncStreakFromDailyDev_def onAlarm_def checkStreakAndNotify_def
      executeStreakFailsafe_def onInstalled_def Let_def)

theorem storage_failure_aborts_witness:
  "updateStreak utcZone 864001000 True False syncedStore = (syncedStore, []) \<and>
   onAlarm ''firstStreakFailsafe'' utcZone 864001000 True False False syncedStore
     = (syncedStore, [])"
  using storage_failure_aborts [of utcZone 864001000 False syncedStore False "JNum (Fin 1)"
      False "''firstStreakFailsafe''" False False]
  by simp

subsection \<open>An extracted count of zero\<close>

text \<open>
  Claim C10. In the callback of the scheduled forced synchronisation and in the callback
  of the popup's manual synchronisation, an extracted count of \<open>0\<close> fails the guard,
  because \<^verbatim>\<open>results[0].result\<close> is tested for truthiness: the store is not updated,
  and the manual synchronisation answers with a failure. Every other integer is stored
  by both. The callback of \<^verbatim>\<open>clickArticleAndUpdateStreak\<close> tests the count against
  \<^verbatim>\<open>null\<close> and \<^verbatim>\<open>NaN\<close> only: for every status that reached an article and observed
  a \<open>0\<close> it calls \<^verbatim>\<open>updateStreakWithCount(0)\<close>, which stores the 0.
\<close>

theorem zero_count_truthiness:
  "forceSyncCallback p False (Some (Frame (JNum (Fin 0)) # fs)) now setErr setErr2 st
     = (st, [TabsRemove]) \<and>
   manualSyncCallback False (Some (Frame (JNum (Fin 0)) # fs)) now setErr st
     = (st, [TabsRemove, SendResponse (Failure ''Could not extract streak count'')]) \<and>
   (n \<noteq> 0 \<longrightarrow>
      streak (fst (forceSyncCallback p False (Some (Frame (JNum (Fin n)) # fs)) now False
        setErr2 st)) = JNum (Fin n) \<and>
      manualSyncCallback False (Some (Frame (JNum (Fin n)) # fs)) now False st
        = (st\<lparr>streak := JNum (Fin n), syncedWithDailyDev := True, lastSyncTime := Some now\<rparr>,
           [TabsRemove, SendResponse (Success (JNum (Fin n)))])) \<and>
   (articleReached status \<and> streakCount status = JNum (Fin 0) \<longrightarrow>
      clickArticleCallback False (Some (Frame (Some status) # gs)) z now getErr setErr res st
        = updateStreakWithCountCallback (JNum (Fin 0)) z now getErr setErr res st \<and>
      fst (clickArticleCallback False (Some (Frame (Some status) # gs)) z now False False res st)
        = st\<lparr>streak := JNum (Fin 0), lastVisit := Some (toDateString z now),
             streakMaintainedToday := True, syncedWithDailyDev := True,
             lastSyncTime := Some now\<rparr>) \<and>
   \<not> truthy (JNum (Fin 0)) \<and> \<not> isNaN (JNum (Fin 0))"
proof -
  have a: "forceSyncCallback p False (Some (Frame (JNum (Fin 0)) # fs)) now setErr setErr2 st
     = (st, [TabsRemove])"
    by (simp add: forceSyncCallback_def extractedCount_zero)
  have b: "manualSyncCallback False (Some (Frame (JNum (Fin 0)) # fs)) now setErr st
     = (st, [TabsRemove, SendResponse (Failure ''Could not extract streak count'')])"
    by (simp add: manualSyncCallback_def extractedCount_zero)
  have c: "n \<noteq> 0 \<longrightarrow>
      streak (fst (forceSyncCallback p False (Some (Frame (JNum (Fin n)) # fs)) now False
        setErr2 st)) = JNum (Fin n) \<and>
      manualSyncCallback False (Some (Frame (JNum (Fin n)) # fs)) now False st
        = (st\<lparr>streak := JNum (Fin n), syncedWithDailyDev := True, lastSyncTime := Some now\<rparr>,
           [TabsRemove, SendResponse (Success (JNum (Fin n)))])"
    by (simp add: forceSyncCallback_def manualSyncCallback_def extractedCount_nonzero Let_def)
  have d: "articleReached status \<and> streakCount status = JNum (Fin 0) \<longrightarrow>
      clickArticleCallback False (Some (Frame (Some status) # gs)) z now getErr setErr res st
        = updateStreakWithCountCallback (JNum (Fin 0)) z now getErr setErr res st \<and>
      fst (clickArticleCallback False (Some (Frame (Some status) # gs)) z now False False res st)
        = st\<lparr>streak := JNum (Fin 0), lastVisit := Some (toDateString z now),
             streakMaintainedToday := True, syncedWithDailyDev := True,
             lastSyncTime := Some now\<rparr>"
    by (simp add: clickArticleCallback_def isNaN_def updateStreakWithCountCallback_def Let_def)
  have e: "\<not> truthy (JNum (Fin 0)) \<and> \<not> isNaN (JNum (Fin 0))"
    by (simp add: isNaN_def)
  show ?thesis
    using a b c d e by blast
qed

theorem zero_count_truthiness_witness:
  "articleReached (clickedStatus (JNum (Fin 0))) \<and>
   streakCount (clickedStatus (JNum (Fin 0))) = JNum (Fin 0) \<and>
   forceSyncCallback (forceSyncClosure utcZone 928800000 maintainedStore) False
     (Some [Frame (JNum (Fin 0))]) 928805000 False False maintainedStore
     = (maintainedStore, [TabsRemove]) \<and>
   fst (clickArticleCallback False (Some [Frame (Some (clickedStatus (JNum (Fin 0))))])
     utcZone 928805000 False False maintainedStore maintainedStore)
     = \<lparr>streak = JNum (Fin 0), lastVisit = Some 10, streakMaintainedToday = True,
        syncedWithDailyDev = True, lastSyncTime = Some 928805000\<rparr>"
proof -
  have r: "articleReached (clickedStatus (JNum (Fin 0)))"
    by (rule articleReached_clicked)
  have s: "streakCount (clickedStatus (JNum (Fin 0))) = JNum (Fin 0)"
    by (rule streakCount_clicked)
  note t = zero_count_truthiness [of "forceSyncClosure utcZone 928800000 maintainedStore" "[]"
      928805000 False False maintainedStore 1 "clickedStatus (JNum (Fin 0))" "[]" utcZone
      False maintainedStore]
  have f: "forceSyncCallback (forceSyncClosure utcZone 928800000 maintainedStore) False
     (Some [Frame (JNum (Fin 0))]) 928805000 False False maintainedStore
     = (maintainedStore, [TabsRemove])"
    using t by blast
  have c: "fst (clickArticleCallback False (Some [Frame (Some (clickedStatus (JNum (Fin 0))))])
     utcZone 928805000 False False maintainedStore maintainedStore)
     = maintainedStore\<lparr>streak := JNum (Fin 0),
         lastVisit := Some (toDateString utcZone 928805000), streakMaintainedToday := True,
         syncedWithDailyDev := True, lastSyncTime := Some 928805000\<rparr>"
    using t r s by blast
  show ?thesis
    using r s f c by (simp add: maintainedStore_def day_10_evening)
qed

end
